theory Spec2Isabelle
  imports Main "HOL-Library.AList" "HOL-Library.Word"
begin

section \<open>Values, errors and objects of notify2.py\<close>

text \<open>
  The exceptions the module can raise. \<open>UninittedError\<close> is the module's own
  class; \<open>KeyError\<close>, \<open>ValueError\<close>, \<open>TypeError\<close>, \<open>IndexError\<close> and
  \<open>ImportError\<close> are Python's; \<open>DBusException\<close> stands for any fault of the
  D-Bus transport or of the notification server.
\<close>

datatype error =
  UninittedError | KeyError | ValueError | TypeError | IndexError | ImportError | DBusException

text \<open>
  The Python values that are stored as hints or passed as user data: strings,
  integers, and \<open>dbus.Byte\<close> values (one byte on the wire).
\<close>

datatype pyobj = PyStr string | PyInt int | PyByte "8 word"

text \<open>
  A callback is the module's \<open>no_op\<close> function or a function of the caller,
  known by a number only.
\<close>

datatype callable = no_op | UserCallable nat

text \<open>Notification objects live in a store and are known by their reference.\<close>

type_synonym ref = nat

datatype cb_arg = ArgNotification ref | ArgStr string | ArgObj pyobj

text \<open>
  The attributes of a \<open>Notification\<close> object. \<open>id_attr\<close> is the attribute
  \<open>id\<close> and \<open>closed_callback_attr\<close> the attribute \<open>_closed_callback\<close>. The two
  dictionaries keep Python's insertion order: a new key goes to the end, an
  assignment to an existing key keeps its place.
\<close>

record Notification =
  id_attr :: int
  timeout :: int
  closed_callback_attr :: callable
  summary :: string
  message :: string
  icon :: string
  hints :: "(string \<times> pyobj) list"
  actions :: "(string \<times> string \<times> callable \<times> pyobj option) list"

text \<open>
  \<open>dbus_obj\<close> is either the stub that raises on every attribute access or the
  proxy object of the notification service.
\<close>

datatype dbus_object = UninittedDbusObj | ProxyObject

text \<open>What the module asks of the proxy object, in the order it asks it.\<close>

datatype dbus_call =
  Notify string int string string string "string list" "(string \<times> pyobj) list" int
| CloseNotification int
| GetCapabilities
| GetServerInformation
| connect_to_signal string

text \<open>
  The module's globals (\<open>have_mainloop\<close> is \<open>_have_mainloop\<close>), the store of
  Notification objects, and two logs: the calls made on the proxy object and
  the callbacks invoked.
\<close>

record state =
  initted :: bool
  appname :: string
  have_mainloop :: bool
  dbus_obj :: dbus_object
  notifications_registry :: "int \<rightharpoonup> ref"
  heap :: "ref \<Rightarrow> Notification"
  next_ref :: ref
  sent :: "dbus_call list"
  invoked :: "(callable \<times> cb_arg list) list"

type_synonym 'a result = "(error + 'a) \<times> state"

text \<open>
  The code of the caller's callbacks is not part of the module: it is a
  parameter, a function from the callback's number and arguments to its effect
  on the state, which may raise.
\<close>

type_synonym user_code = "nat \<Rightarrow> cb_arg list \<Rightarrow> state \<Rightarrow> unit result"

definition EXPIRES_DEFAULT :: int where "EXPIRES_DEFAULT = - 1"
definition EXPIRES_NEVER :: int where "EXPIRES_NEVER = 0"

definition URGENCY_LOW :: int where "URGENCY_LOW = 0"
definition URGENCY_NORMAL :: int where "URGENCY_NORMAL = 1"
definition URGENCY_CRITICAL :: int where "URGENCY_CRITICAL = 2"

definition urgency_levels :: "int list" where
  "urgency_levels = [URGENCY_LOW, URGENCY_NORMAL, URGENCY_CRITICAL]"

text \<open>The class attributes of \<open>Notification\<close>: what a fresh object reads.\<close>

definition Notification_class :: Notification where
  "Notification_class =
     \<lparr>id_attr = 0, timeout = - 1, closed_callback_attr = no_op,
      summary = [], message = [], icon = [], hints = [], actions = []\<rparr>"

text \<open>The state of the module right after import.\<close>

definition initial_state :: state where
  "initial_state =
     \<lparr>initted = False, appname = [], have_mainloop = False,
      dbus_obj = UninittedDbusObj, notifications_registry = Map.empty,
      heap = (\<lambda>_. Notification_class), next_ref = 0, sent = [], invoked = []\<rparr>"

section \<open>Initialising the module\<close>

text \<open>\<open>UninittedDbusObj.__getattr__\<close> raises; the proxy object has every method.\<close>

definition getattr :: "dbus_object \<Rightarrow> string \<Rightarrow> error + unit" where
  "getattr obj name =
     (case obj of UninittedDbusObj \<Rightarrow> Inl UninittedError | ProxyObject \<Rightarrow> Inr ())"

text \<open>
  The argument \<open>mainloop\<close> of \<open>init\<close>: \<open>None\<close>, a string, or a main loop
  object. What the dbus library answers during \<open>init\<close> is a parameter: each
  import and each call may raise, and a default main loop may be set.
\<close>

datatype mainloop_arg = MainloopNone | MainloopStr string | MainloopObj

record dbus_env =
  glib_import :: "error option"
  qt_import :: "error option"
  SessionBus :: "error option"
  get_object :: "error option"
  get_default_main_loop :: bool
  connect_ActionInvoked :: "error option"
  connect_NotificationClosed :: "error option"

definition truthy :: "mainloop_arg \<Rightarrow> bool" where
  "truthy m = (case m of MainloopNone \<Rightarrow> False | MainloopStr s \<Rightarrow> s \<noteq> [] | MainloopObj \<Rightarrow> True)"

definition init :: "dbus_env \<Rightarrow> string \<Rightarrow> mainloop_arg \<Rightarrow> state \<Rightarrow> bool result" where
  "init env app_name mainloop s =
     (case (if mainloop = MainloopStr ''glib''
            then (case glib_import env of Some e \<Rightarrow> Inl e | None \<Rightarrow> Inr MainloopObj)
            else if mainloop = MainloopStr ''qt''
            then (case qt_import env of Some e \<Rightarrow> Inl e | None \<Rightarrow> Inr MainloopObj)
            else Inr mainloop) of
        Inl e \<Rightarrow> (Inl e, s)
      | Inr loop \<Rightarrow>
         (case SessionBus env of
            Some e \<Rightarrow> (Inl e, s)
          | None \<Rightarrow>
             (case get_object env of
                Some e \<Rightarrow> (Inl e, s)
              | None \<Rightarrow>
                 (let s1 = s\<lparr>dbus_obj := ProxyObject, appname := app_name, initted := True\<rparr>
                  in if truthy loop \<or> get_default_main_loop env
                     then
                       (let s2 = s1\<lparr>have_mainloop := True,
                                    sent := sent s1 @ [connect_to_signal ''ActionInvoked'']\<rparr>
                        in case connect_ActionInvoked env of
                             Some e \<Rightarrow> (Inl e, s2)
                           | None \<Rightarrow>
                              (let s3 = s2\<lparr>sent := sent s2 @
                                             [connect_to_signal ''NotificationClosed'']\<rparr>
                               in case connect_NotificationClosed env of
                                    Some e \<Rightarrow> (Inl e, s3)
                                  | None \<Rightarrow> (Inr True, s3)))
                     else (Inr True, s1)))))"

definition is_initted :: "state \<Rightarrow> bool" where
  "is_initted s = initted s"

definition get_app_name :: "state \<Rightarrow> string" where
  "get_app_name s = appname s"

definition uninit :: "state \<Rightarrow> unit result" where
  "uninit s = (Inr (), s\<lparr>initted := False, have_mainloop := False, dbus_obj := UninittedDbusObj\<rparr>)"

section \<open>Server information\<close>

text \<open>The server's reply to a call is a parameter: a fault or a value.\<close>

definition get_server_caps :: "(error + string list) \<Rightarrow> state \<Rightarrow> string list result" where
  "get_server_caps reply s =
     (case getattr (dbus_obj s) ''GetCapabilities'' of
        Inl e \<Rightarrow> (Inl e, s)
      | Inr _ \<Rightarrow>
         (let s1 = s\<lparr>sent := sent s @ [GetCapabilities]\<rparr>
          in case reply of Inl e \<Rightarrow> (Inl e, s1) | Inr xs \<Rightarrow> (Inr xs, s1)))"

definition get_server_info ::
  "(error + string list) \<Rightarrow> state \<Rightarrow> (string \<times> string) list result" where
  "get_server_info reply s =
     (case getattr (dbus_obj s) ''GetServerInformation'' of
        Inl e \<Rightarrow> (Inl e, s)
      | Inr _ \<Rightarrow>
         (let s1 = s\<lparr>sent := sent s @ [GetServerInformation]\<rparr>
          in case reply of
               Inl e \<Rightarrow> (Inl e, s1)
             | Inr res \<Rightarrow>
                (if length res < 4 then (Inl IndexError, s1)
                 else (Inr [(''name'', res ! 0), (''vendor'', res ! 1),
                            (''version'', res ! 2), (''spec-version'', res ! 3)], s1))))"

section \<open>Callbacks\<close>

text \<open>
  Calling a callback: the call is logged, \<open>no_op\<close> returns at once, a function
  of the caller runs the caller's code.
\<close>

definition call :: "user_code \<Rightarrow> callable \<Rightarrow> cb_arg list \<Rightarrow> state \<Rightarrow> unit result" where
  "call U f args s =
     (let s1 = s\<lparr>invoked := invoked s @ [(f, args)]\<rparr>
      in case f of no_op \<Rightarrow> (Inr (), s1) | UserCallable k \<Rightarrow> U k args s1)"

text \<open>The method \<open>Notification._action_callback\<close>.\<close>

definition Notification_action_callback ::
  "user_code \<Rightarrow> ref \<Rightarrow> string \<Rightarrow> state \<Rightarrow> unit result" where
  "Notification_action_callback U self action s =
     (case map_of (actions (heap s self)) action of
        None \<Rightarrow> (Inr (), s)
      | Some (label, callback, user_data) \<Rightarrow>
         (case user_data of
            None \<Rightarrow> call U callback [ArgNotification self, ArgStr action] s
          | Some d \<Rightarrow> call U callback [ArgNotification self, ArgStr action, ArgObj d] s))"

text \<open>The module's handler \<open>_action_callback\<close> of the signal ActionInvoked.\<close>

definition action_callback :: "user_code \<Rightarrow> int \<Rightarrow> string \<Rightarrow> state \<Rightarrow> unit result" where
  "action_callback U nid action s =
     (case notifications_registry s nid of
        None \<Rightarrow> (Inl KeyError, s)
      | Some n \<Rightarrow> Notification_action_callback U n action s)"

text \<open>
  The module's handler \<open>_closed_callback\<close> of the signal NotificationClosed.
  The entry is deleted in the state the callback leaves, and \<open>del\<close> raises when
  the callback has removed it.
\<close>

definition closed_callback :: "user_code \<Rightarrow> int \<Rightarrow> int \<Rightarrow> state \<Rightarrow> unit result" where
  "closed_callback U nid reason s =
     (case notifications_registry s nid of
        None \<Rightarrow> (Inl KeyError, s)
      | Some n \<Rightarrow>
         (case call U (closed_callback_attr (heap s n)) [ArgNotification n] s of
            (Inl e, s1) \<Rightarrow> (Inl e, s1)
          | (Inr _, s1) \<Rightarrow>
             (case notifications_registry s1 nid of
                None \<Rightarrow> (Inl KeyError, s1)
              | Some _ \<Rightarrow>
                 (Inr (), s1\<lparr>notifications_registry :=
                               (notifications_registry s1)(nid := None)\<rparr>))))"

section \<open>The class Notification\<close>

text \<open>
  \<open>Notification(summary, message='', icon='')\<close>: an omitted argument is
  \<open>None\<close> here. The new object takes the next free reference.
\<close>

definition Notification_init ::
  "string \<Rightarrow> string option \<Rightarrow> string option \<Rightarrow> state \<Rightarrow> ref \<times> state" where
  "Notification_init summary_arg message_arg icon_arg s =
     (let self = next_ref s;
          n = Notification_class
                \<lparr>summary := summary_arg,
                 message := (case message_arg of None \<Rightarrow> [] | Some m \<Rightarrow> m),
                 icon := (case icon_arg of None \<Rightarrow> [] | Some i \<Rightarrow> i),
                 hints := [], actions := []\<rparr>
      in (self, s\<lparr>heap := (heap s)(self := n), next_ref := Suc self\<rparr>))"

fun make_actions_array ::
  "(string \<times> string \<times> callable \<times> pyobj option) list \<Rightarrow> string list" where
  "make_actions_array [] = []"
| "make_actions_array ((action, (label, callback, user_data)) # rest) =
     action # label # make_actions_array rest"

definition Notification_show :: "ref \<Rightarrow> (error + int) \<Rightarrow> state \<Rightarrow> bool result" where
  "Notification_show self reply s =
     (case getattr (dbus_obj s) ''Notify'' of
        Inl e \<Rightarrow> (Inl e, s)
      | Inr _ \<Rightarrow>
         (let n = heap s self;
              s1 = s\<lparr>sent := sent s @
                       [Notify (appname s) (id_attr n) (icon n) (summary n) (message n)
                          (make_actions_array (actions n)) (hints n) (timeout n)]\<rparr>
          in case reply of
               Inl e \<Rightarrow> (Inl e, s1)
             | Inr nid \<Rightarrow>
                (let s2 = s1\<lparr>heap := (heap s1)(self := (heap s1 self)\<lparr>id_attr := nid\<rparr>)\<rparr>
                 in if have_mainloop s2
                    then (Inr True,
                          s2\<lparr>notifications_registry :=
                               (notifications_registry s2)(id_attr (heap s2 self) \<mapsto> self)\<rparr>)
                    else (Inr True, s2))))"

text \<open>
  \<open>update(summary, message="", icon=None)\<close>: an omitted message is the empty
  string, an omitted icon is \<open>None\<close>.
\<close>

definition Notification_update ::
  "ref \<Rightarrow> string \<Rightarrow> string option \<Rightarrow> string option \<Rightarrow> state \<Rightarrow> unit result" where
  "Notification_update self summary_arg message_arg icon_arg s =
     (let n1 = (heap s self)\<lparr>summary := summary_arg\<rparr>;
          n2 = n1\<lparr>message := (case message_arg of None \<Rightarrow> [] | Some m \<Rightarrow> m)\<rparr>;
          n3 = (case icon_arg of None \<Rightarrow> n2 | Some i \<Rightarrow> n2\<lparr>icon := i\<rparr>)
      in (Inr (), s\<lparr>heap := (heap s)(self := n3)\<rparr>))"

definition Notification_close :: "ref \<Rightarrow> (error + unit) \<Rightarrow> state \<Rightarrow> unit result" where
  "Notification_close self reply s =
     (if id_attr (heap s self) \<noteq> 0
      then (case getattr (dbus_obj s) ''CloseNotification'' of
              Inl e \<Rightarrow> (Inl e, s)
            | Inr _ \<Rightarrow>
               (let s1 = s\<lparr>sent := sent s @ [CloseNotification (id_attr (heap s self))]\<rparr>
                in case reply of Inl e \<Rightarrow> (Inl e, s1) | Inr _ \<Rightarrow> (Inr (), s1)))
      else (Inr (), s))"

definition Notification_set_hint :: "ref \<Rightarrow> string \<Rightarrow> pyobj \<Rightarrow> state \<Rightarrow> unit result" where
  "Notification_set_hint self key v s =
     (Inr (), s\<lparr>heap := (heap s)(self := (heap s self)
                 \<lparr>hints := AList.update key v (hints (heap s self))\<rparr>)\<rparr>)"

text \<open>
  \<open>dbus.Byte(value)\<close> of the dbus library, on an integer: a byte for a value
  from 0 to 255, a ValueError otherwise.
\<close>

definition dbus_Byte :: "int \<Rightarrow> error + pyobj" where
  "dbus_Byte v = (if 0 \<le> v \<and> v \<le> 255 then Inr (PyByte (word_of_int v)) else Inl ValueError)"

definition Notification_set_hint_byte :: "ref \<Rightarrow> string \<Rightarrow> int \<Rightarrow> state \<Rightarrow> unit result" where
  "Notification_set_hint_byte self key v s =
     (case dbus_Byte v of
        Inl e \<Rightarrow> (Inl e, s)
      | Inr b \<Rightarrow>
         (Inr (), s\<lparr>heap := (heap s)(self := (heap s self)
                     \<lparr>hints := AList.update key b (hints (heap s self))\<rparr>)\<rparr>))"

definition Notification_set_urgency :: "ref \<Rightarrow> int \<Rightarrow> state \<Rightarrow> unit result" where
  "Notification_set_urgency self level s =
     (if level \<notin> set urgency_levels then (Inl ValueError, s)
      else Notification_set_hint_byte self ''urgency'' level s)"

definition Notification_set_category :: "ref \<Rightarrow> pyobj \<Rightarrow> state \<Rightarrow> unit result" where
  "Notification_set_category self category s =
     (Inr (), s\<lparr>heap := (heap s)(self := (heap s self)
                 \<lparr>hints := AList.update ''category'' category (hints (heap s self))\<rparr>)\<rparr>)"

text \<open>\<open>isinstance(timeout, int)\<close> holds of an integer and of a \<open>dbus.Byte\<close>.\<close>

definition Notification_set_timeout :: "ref \<Rightarrow> pyobj \<Rightarrow> state \<Rightarrow> unit result" where
  "Notification_set_timeout self v s =
     (case v of
        PyStr _ \<Rightarrow> (Inl TypeError, s)
      | PyInt i \<Rightarrow> (Inr (), s\<lparr>heap := (heap s)(self := (heap s self)\<lparr>timeout := i\<rparr>)\<rparr>)
      | PyByte b \<Rightarrow> (Inr (), s\<lparr>heap := (heap s)(self := (heap s self)\<lparr>timeout := uint b\<rparr>)\<rparr>))"

definition Notification_get_timeout :: "ref \<Rightarrow> state \<Rightarrow> int" where
  "Notification_get_timeout self s = timeout (heap s self)"

text \<open>
  \<open>add_action(action, label, callback, user_data=None)\<close>: \<open>user_data\<close> is
  \<open>None\<close> when omitted.
\<close>

definition Notification_add_action ::
  "ref \<Rightarrow> string \<Rightarrow> string \<Rightarrow> callable \<Rightarrow> pyobj option \<Rightarrow> state \<Rightarrow> unit result" where
  "Notification_add_action self action label callback user_data s =
     (Inr (), s\<lparr>heap := (heap s)(self := (heap s self)
                 \<lparr>actions := AList.update action (label, callback, user_data)
                               (actions (heap s self))\<rparr>)\<rparr>)"

definition Notification_connect :: "ref \<Rightarrow> string \<Rightarrow> callable \<Rightarrow> state \<Rightarrow> unit result" where
  "Notification_connect self event callback s =
     (if event \<noteq> ''closed'' then (Inl ValueError, s)
      else (Inr (), s\<lparr>heap := (heap s)(self := (heap s self)
                       \<lparr>closed_callback_attr := callback\<rparr>)\<rparr>))"

section \<open>Runs of the module\<close>

text \<open>
  One use of the module by the program or by the transport: a call of a
  function or method with its arguments and with the answers of the dbus
  library, or the delivery of a signal to its handler.
\<close>

datatype api_call =
  Call_init dbus_env string mainloop_arg
| Call_uninit
| Call_get_server_caps "error + string list"
| Call_get_server_info "error + string list"
| Signal_ActionInvoked int string
| Signal_NotificationClosed int int
| New_Notification string "string option" "string option"
| Call_show ref "error + int"
| Call_update ref string "string option" "string option"
| Call_close ref "error + unit"
| Call_set_hint ref string pyobj
| Call_set_hint_byte ref string int
| Call_set_urgency ref int
| Call_set_category ref pyobj
| Call_set_timeout ref pyobj
| Call_add_action ref string string callable "pyobj option"
| Call_connect ref string callable

text \<open>The state a call leaves, whether it returns or raises.\<close>

primrec step :: "user_code \<Rightarrow> api_call \<Rightarrow> state \<Rightarrow> state" where
  "step U (Call_init env app_name mainloop) s = snd (init env app_name mainloop s)"
| "step U Call_uninit s = snd (uninit s)"
| "step U (Call_get_server_caps reply) s = snd (get_server_caps reply s)"
| "step U (Call_get_server_info reply) s = snd (get_server_info reply s)"
| "step U (Signal_ActionInvoked nid action) s = snd (action_callback U nid action s)"
| "step U (Signal_NotificationClosed nid reason) s = snd (closed_callback U nid reason s)"
| "step U (New_Notification su m i) s = snd (Notification_init su m i s)"
| "step U (Call_show self reply) s = snd (Notification_show self reply s)"
| "step U (Call_update self su m i) s = snd (Notification_update self su m i s)"
| "step U (Call_close self reply) s = snd (Notification_close self reply s)"
| "step U (Call_set_hint self key v) s = snd (Notification_set_hint self key v s)"
| "step U (Call_set_hint_byte self key v) s = snd (Notification_set_hint_byte self key v s)"
| "step U (Call_set_urgency self level) s = snd (Notification_set_urgency self level s)"
| "step U (Call_set_category self category) s = snd (Notification_set_category self category s)"
| "step U (Call_set_timeout self v) s = snd (Notification_set_timeout self v s)"
| "step U (Call_add_action self action label callback user_data) s =
     snd (Notification_add_action self action label callback user_data s)"
| "step U (Call_connect self event callback) s = snd (Notification_connect self event callback s)"

text \<open>The states the module can be in: those a run from the import leads to.\<close>

inductive reachable :: "user_code \<Rightarrow> state \<Rightarrow> bool" for U :: user_code where
  reachable_initial: "reachable U initial_state"
| reachable_step: "reachable U s \<Longrightarrow> reachable U (step U c s)"

text \<open>
  The invariant of the connection state: the proxy object is there exactly
  when \<open>initted\<close> holds, and \<open>_have_mainloop\<close> holds only when \<open>initted\<close> does.
\<close>

definition state_invariant :: "state \<Rightarrow> bool" where
  "state_invariant s =
     ((dbus_obj s = ProxyObject \<longleftrightarrow> initted s) \<and> (have_mainloop s \<longrightarrow> initted s))"

text \<open>
  The caller's callbacks use the module through its functions only; all that
  is asked of them here is that they keep the invariant.
\<close>

definition keeps_invariant :: "user_code \<Rightarrow> bool" where
  "keeps_invariant U = (\<forall>k args s. state_invariant s \<longrightarrow> state_invariant (snd (U k args s)))"

text \<open>
  A run from the import, callbacks that do nothing, and a dbus library in which
  every call succeeds.
\<close>

definition run :: "user_code \<Rightarrow> api_call list \<Rightarrow> state" where
  "run U cs = fold (step U) cs initial_state"

definition idle :: user_code where
  "idle k args s = (Inr (), s)"

definition working_env :: dbus_env where
  "working_env =
     \<lparr>glib_import = None, qt_import = None, SessionBus = None, get_object = None,
      get_default_main_loop = False, connect_ActionInvoked = None,
      connect_NotificationClosed = None\<rparr>"

text \<open>
  States used as examples. In \<open>shown_once\<close> the module was initialised
  with the glib main loop and one notification, with a callback connected to
  its closing, was shown and got the id 7. \<open>closed_once\<close> is that state after
  the signal NotificationClosed for 7. In \<open>created_only\<close> a notification was
  created and never shown. In \<open>with_actions\<close> the notification shown has two
  actions, one without and one with user data. In \<open>shown_then_uninit\<close> a
  notification was shown without a main loop and \<open>uninit\<close> was called.
\<close>

definition shown_once :: state where
  "shown_once =
     run idle [Call_init working_env ''app'' (MainloopStr ''glib''),
               New_Notification ''Summary'' None None,
               Call_connect 0 ''closed'' (UserCallable 1),
               Call_show 0 (Inr 7)]"

definition closed_once :: state where
  "closed_once = snd (closed_callback idle 7 1 shown_once)"

definition created_only :: state where
  "created_only =
     run idle [Call_init working_env ''app'' MainloopNone,
               New_Notification ''Summary'' (Some ''Body'') None]"

definition with_actions :: state where
  "with_actions =
     run idle [Call_init working_env ''app'' (MainloopStr ''glib''),
               New_Notification ''Summary'' None None,
               Call_add_action 0 ''ok'' ''OK'' (UserCallable 2) None,
               Call_add_action 0 ''more'' ''More'' (UserCallable 3) (Some (PyInt 5)),
               Call_show 0 (Inr 7)]"

definition shown_then_uninit :: state where
  "shown_then_uninit =
     run idle [Call_init working_env ''app'' MainloopNone,
               New_Notification ''Summary'' None None,
               Call_show 0 (Inr 7),
               Call_uninit]"

section \<open>The invariant of the connection state\<close>


lemma getattr_simps [simp]:
  "getattr UninittedDbusObj name = Inl UninittedError"
  "getattr ProxyObject name = Inr ()"
  by (simp_all add: getattr_def)

lemma invariant_call:
  "keeps_invariant U \<Longrightarrow> state_invariant s \<Longrightarrow> state_invariant (snd (call U f args s))"
  by (cases f) (simp_all add: call_def Let_def keeps_invariant_def state_invariant_def)

lemma invariant_init: "state_invariant s \<Longrightarrow> state_invariant (snd (init env a m s))"
  by (auto simp: state_invariant_def init_def Let_def split: option.splits sum.splits if_splits)

lemma invariant_uninit: "state_invariant (snd (uninit s))"
  by (simp add: state_invariant_def uninit_def)

lemma invariant_Notification_action_callback:
  "keeps_invariant U \<Longrightarrow> state_invariant s \<Longrightarrow>
   state_invariant (snd (Notification_action_callback U self action s))"
  by (simp add: Notification_action_callback_def invariant_call split: option.splits prod.splits)

lemma invariant_action_callback:
  "keeps_invariant U \<Longrightarrow> state_invariant s \<Longrightarrow>
   state_invariant (snd (action_callback U nid action s))"
  by (simp add: action_callback_def invariant_Notification_action_callback split: option.splits)

lemma invariant_closed_callback:
  assumes "keeps_invariant U" and "state_invariant s"
  shows "state_invariant (snd (closed_callback U nid reason s))"
proof (cases "notifications_registry s nid")
  case None
  with assms show ?thesis by (simp add: closed_callback_def)
next
  case (Some n)
  obtain r s1 where c: "call U (closed_callback_attr (heap s n)) [ArgNotification n] s = (r, s1)"
    by (cases "call U (closed_callback_attr (heap s n)) [ArgNotification n] s")
  from invariant_call [OF assms, of "closed_callback_attr (heap s n)" "[ArgNotification n]"] c
  have "state_invariant s1" by simp
  then have "state_invariant (s1\<lparr>notifications_registry := (notifications_registry s1)(nid := None)\<rparr>)"
    by (simp add: state_invariant_def)
  with \<open>state_invariant s1\<close> Some c show ?thesis
    by (simp add: closed_callback_def split: sum.splits option.splits)
qed

lemma invariant_step:
  "keeps_invariant U \<Longrightarrow> state_invariant s \<Longrightarrow> state_invariant (step U c s)"
proof (cases c)
  case (Call_init env a m)
  assume "state_invariant s" then show ?thesis using Call_init by (simp add: invariant_init)
next
  case Call_uninit
  then show ?thesis by (simp add: invariant_uninit)
next
  case (Signal_ActionInvoked nid action)
  assume "keeps_invariant U" "state_invariant s"
  then show ?thesis using Signal_ActionInvoked by (simp add: invariant_action_callback)
next
  case (Signal_NotificationClosed nid reason)
  assume "keeps_invariant U" "state_invariant s"
  then show ?thesis using Signal_NotificationClosed by (simp add: invariant_closed_callback)
qed (auto simp: state_invariant_def get_server_caps_def get_server_info_def Notification_init_def
      Notification_show_def Notification_update_def Notification_close_def
      Notification_set_hint_def Notification_set_hint_byte_def Notification_set_urgency_def
      Notification_set_category_def Notification_set_timeout_def Notification_add_action_def
      Notification_connect_def Let_def split: sum.splits pyobj.splits)

lemma reachable_invariant:
  "reachable U s \<Longrightarrow> keeps_invariant U \<Longrightarrow> state_invariant s"
proof (induction rule: reachable.induct)
  case reachable_initial
  show ?case by (simp add: state_invariant_def initial_state_def)
next
  case (reachable_step s c)
  then show ?case by (simp add: invariant_step)
qed

lemma reachable_fold: "reachable U s \<Longrightarrow> reachable U (fold (step U) cs s)"
  by (induction cs arbitrary: s) (simp_all add: reachable_step)

lemma reachable_run: "reachable U (run U cs)"
  by (simp add: run_def reachable_fold reachable_initial)

lemma keeps_invariant_idle: "keeps_invariant idle"
  by (simp add: keeps_invariant_def idle_def)



section \<open>The example states\<close>

lemmas run_defs = run_def initial_state_def working_env_def idle_def truthy_def init_def
  uninit_def call_def Notification_class_def Notification_init_def Notification_show_def
  Notification_connect_def Let_def

lemma shown_once_fields:
  "notifications_registry shown_once = [7 \<mapsto> 0]"
  "closed_callback_attr (heap shown_once 0) = UserCallable 1"
  "invoked shown_once = []"
  "have_mainloop shown_once"
  "id_attr (heap shown_once 0) = 7"
  "dbus_obj shown_once = ProxyObject"
  "hints (heap shown_once 0) = []"
  by (simp_all add: shown_once_def run_defs)

lemma shown_once_show:
  "fst (Notification_show 0 (Inr 9) shown_once) = Inr True"
  "id_attr (heap (snd (Notification_show 0 (Inr 9) shown_once)) 0) = 9"
  by (simp_all add: shown_once_def run_defs)

lemma created_only_fields:
  "id_attr (heap created_only 0) = 0"
  "message (heap created_only 0) = ''Body''"
  by (simp_all add: created_only_def run_defs)

lemma with_actions_fields:
  "map_of (actions (heap with_actions 0)) ''gone'' = None"
  "map_of (actions (heap with_actions 0)) ''ok'' = Some (''OK'', UserCallable 2, None)"
  "map_of (actions (heap with_actions 0)) ''more'' = Some (''More'', UserCallable 3, Some (PyInt 5))"
  "invoked with_actions = []"
  by (simp_all add: with_actions_def run_defs Notification_add_action_def)

lemma closed_once_fields:
  "fst (closed_callback idle 7 1 shown_once) = Inr ()"
  "notifications_registry closed_once = Map.empty"
  "invoked closed_once = [(UserCallable 1, [ArgNotification 0])]"
  by (simp_all add: closed_once_def closed_callback_def shown_once_fields call_def idle_def Let_def)

lemma shown_then_uninit_fields:
  "\<not> initted shown_then_uninit"
  "id_attr (heap shown_then_uninit 0) = 7"
  by (simp_all add: shown_then_uninit_def run_defs)

section \<open>Signals for an id that is not registered\<close>

lemma absent_id_raises:
  "notifications_registry s nid = None \<Longrightarrow>
     closed_callback U nid reason s = (Inl KeyError, s) \<and>
     action_callback U nid action s = (Inl KeyError, s)"
  by (simp add: closed_callback_def action_callback_def)

text \<open>
  C1. The claim is that a signal whose id is not in the registry is dropped
  without error, and that a second NotificationClosed for an id raises nothing
  and calls nothing. The handlers index the registry without a guard: the
  first NotificationClosed for 7 returns, calls the connected callback once
  and removes the entry; the second one raises KeyError (it calls nothing and
  changes nothing), and so does ActionInvoked for the id 8, which was never
  registered.
\<close>

theorem second_closed_signal_raises:
  "fst (closed_callback idle 7 1 shown_once) = Inr () \<and>
   invoked closed_once = [(UserCallable 1, [ArgNotification 0])] \<and>
   closed_callback idle 7 1 closed_once = (Inl KeyError, closed_once) \<and>
   action_callback idle 8 ''ok'' shown_once = (Inl KeyError, shown_once)"
  by (simp add: closed_once_fields shown_once_fields absent_id_raises)

section \<open>The connection state\<close>

text \<open>
  C4. In every state the module can reach, the proxy object is present exactly
  when \<open>initted\<close> is true, and \<open>_have_mainloop\<close> implies \<open>initted\<close>; \<open>init\<close>
  (whether it returns or raises) and \<open>uninit\<close> preserve both.
\<close>

theorem connection_invariant:
  "keeps_invariant U \<Longrightarrow>
   (reachable U s \<longrightarrow> state_invariant s) \<and>
   (state_invariant s \<longrightarrow>
      state_invariant (snd (init env app_name mainloop s)) \<and> state_invariant (snd (uninit s)))"
  by (simp add: reachable_invariant invariant_init invariant_uninit)

theorem connection_invariant_witness:
  "keeps_invariant idle \<and> reachable idle shown_once \<and> state_invariant shown_once \<and>
   state_invariant (snd (init working_env ''again'' MainloopNone shown_once)) \<and>
   state_invariant (snd (uninit shown_once))"
  using connection_invariant [OF keeps_invariant_idle, of shown_once working_env "''again''" MainloopNone]
  by (simp add: keeps_invariant_idle reachable_run shown_once_def)

text \<open>
  C2. While the module is not initialised (before \<open>init\<close> or after \<open>uninit\<close>),
  \<open>show\<close>, \<open>close\<close> of a notification with a nonzero id, \<open>get_server_caps\<close>
  and \<open>get_server_info\<close> raise UninittedError, and nothing else happens.
\<close>

theorem uninitialized_operations_raise:
  assumes "reachable U s" and "keeps_invariant U" and "\<not> initted s"
  shows "Notification_show self r1 s = (Inl UninittedError, s) \<and>
         (id_attr (heap s self) \<noteq> 0 \<longrightarrow>
            Notification_close self r2 s = (Inl UninittedError, s)) \<and>
         get_server_caps r3 s = (Inl UninittedError, s) \<and>
         get_server_info r4 s = (Inl UninittedError, s)"
proof -
  from assms have "state_invariant s" by (simp add: reachable_invariant)
  with assms(3) have "dbus_obj s = UninittedDbusObj"
    by (cases "dbus_obj s") (simp_all add: state_invariant_def)
  then show ?thesis
    by (simp add: Notification_show_def Notification_close_def get_server_caps_def
        get_server_info_def)
qed

theorem uninitialized_operations_raise_witness:
  "reachable idle shown_then_uninit \<and> keeps_invariant idle \<and> \<not> initted shown_then_uninit \<and>
   id_attr (heap shown_then_uninit 0) \<noteq> 0 \<and>
   Notification_show 0 (Inr 8) shown_then_uninit = (Inl UninittedError, shown_then_uninit) \<and>
   Notification_close 0 (Inr ()) shown_then_uninit = (Inl UninittedError, shown_then_uninit) \<and>
   get_server_caps (Inr [''body'']) shown_then_uninit = (Inl UninittedError, shown_then_uninit) \<and>
   get_server_info (Inr [''a'', ''b'', ''c'', ''d'']) shown_then_uninit =
     (Inl UninittedError, shown_then_uninit)"
proof -
  have r: "reachable idle shown_then_uninit"
    by (simp add: shown_then_uninit_def reachable_run)
  show ?thesis
    using uninitialized_operations_raise [OF r keeps_invariant_idle shown_then_uninit_fields(1),
        of 0 "Inr 8" "Inr ()" "Inr [''body'']" "Inr [''a'', ''b'', ''c'', ''d'']"]
    by (simp add: r keeps_invariant_idle shown_then_uninit_fields)
qed


section \<open>Showing and closing\<close>

text \<open>
  C3. When \<open>show\<close> returns, the server has answered with an id, the object's
  \<open>id\<close> is that id whatever it was before, a \<open>close\<close> that follows asks the
  server to close that id (an id other than 0, which \<open>close\<close> takes for "never
  shown"), and with a main loop the registry maps the id to this very object.
\<close>

theorem show_sets_id:
  assumes "Notification_show self reply s = (Inr b, s')"
  shows "reply = Inr (id_attr (heap s' self)) \<and>
         (id_attr (heap s' self) \<noteq> 0 \<longrightarrow>
            sent (snd (Notification_close self r s')) =
              sent s' @ [CloseNotification (id_attr (heap s' self))]) \<and>
         (have_mainloop s \<longrightarrow>
            notifications_registry s' (id_attr (heap s' self)) = Some self)"
proof (cases "dbus_obj s")
  case UninittedDbusObj
  with assms show ?thesis by (simp add: Notification_show_def)
next
  case ProxyObject
  with assms show ?thesis
    by (cases reply)
       (auto simp: Notification_show_def Notification_close_def Let_def split: if_splits sum.splits)
qed

theorem show_sets_id_witness:
  "Notification_show 0 (Inr 9) shown_once = (Inr True, snd (Notification_show 0 (Inr 9) shown_once)) \<and>
   id_attr (heap (snd (Notification_show 0 (Inr 9) shown_once)) 0) = 9 \<and>
   have_mainloop shown_once \<and>
   sent (snd (Notification_close 0 (Inr ()) (snd (Notification_show 0 (Inr 9) shown_once)))) =
     sent (snd (Notification_show 0 (Inr 9) shown_once)) @ [CloseNotification 9] \<and>
   notifications_registry (snd (Notification_show 0 (Inr 9) shown_once)) 9 = Some 0"
proof -
  have h: "Notification_show 0 (Inr 9) shown_once =
           (Inr True, snd (Notification_show 0 (Inr 9) shown_once))"
    using shown_once_show(1) by (simp add: prod_eq_iff)
  show ?thesis
    using show_sets_id [OF h, of "Inr ()"] h
    by (simp add: shown_once_show(2) shown_once_fields)
qed

text \<open>
  C6. \<open>close\<close> on a notification whose id is 0 does nothing at all. With
  another id and the module initialised, its only effect is the call
  CloseNotification for that id. In no case does \<open>close\<close> change an object
  (the id stays) or the registry.
\<close>

theorem close_frame:
  "(id_attr (heap s self) = 0 \<longrightarrow> Notification_close self reply s = (Inr (), s)) \<and>
   (id_attr (heap s self) \<noteq> 0 \<and> dbus_obj s = ProxyObject \<longrightarrow>
      snd (Notification_close self reply s) =
        s\<lparr>sent := sent s @ [CloseNotification (id_attr (heap s self))]\<rparr>) \<and>
   heap (snd (Notification_close self reply s)) = heap s \<and>
   notifications_registry (snd (Notification_close self reply s)) = notifications_registry s"
  by (cases "dbus_obj s") (simp_all add: Notification_close_def Let_def split: sum.splits)

theorem close_frame_witness:
  "id_attr (heap created_only 0) = 0 \<and>
   Notification_close 0 (Inr ()) created_only = (Inr (), created_only) \<and>
   id_attr (heap shown_once 0) \<noteq> 0 \<and> dbus_obj shown_once = ProxyObject \<and>
   snd (Notification_close 0 (Inr ()) shown_once) =
     shown_once\<lparr>sent := sent shown_once @ [CloseNotification 7]\<rparr> \<and>
   id_attr (heap (snd (Notification_close 0 (Inr ()) shown_once)) 0) = 7 \<and>
   notifications_registry (snd (Notification_close 0 (Inr ()) shown_once)) 7 = Some 0"
  using close_frame [of created_only 0 "Inr ()"] close_frame [of shown_once 0 "Inr ()"]
  by (simp add: created_only_fields shown_once_fields)

text \<open>
  C7. \<open>uninit\<close> returns, leaves \<open>initted\<close> and \<open>_have_mainloop\<close> false and
  the raising stub in \<open>dbus_obj\<close>, and leaves the registry as it was.
\<close>

theorem uninit_keeps_registry:
  "fst (uninit s) = Inr () \<and>
   \<not> initted (snd (uninit s)) \<and> \<not> have_mainloop (snd (uninit s)) \<and>
   dbus_obj (snd (uninit s)) = UninittedDbusObj \<and>
   notifications_registry (snd (uninit s)) = notifications_registry s"
  by (simp add: uninit_def)

section \<open>Action dispatch\<close>

text \<open>
  C5. \<open>Notification._action_callback\<close> returns without doing anything when
  the key is not in \<open>actions\<close>. When it is, the dispatch is one call of the
  stored callback: with the notification and the key when the user data is
  \<open>None\<close>, with the notification, the key and the user data otherwise. And
  \<open>add_action\<close> stores the label, the callback and the user data it is given
  under the key.
\<close>

theorem action_dispatch:
  "(map_of (actions (heap s self)) key = None \<longrightarrow>
      Notification_action_callback U self key s = (Inr (), s)) \<and>
   (map_of (actions (heap s self)) key = Some (label, cb, None) \<longrightarrow>
      Notification_action_callback U self key s =
        call U cb [ArgNotification self, ArgStr key] s) \<and>
   (map_of (actions (heap s self)) key = Some (label, cb, Some d) \<longrightarrow>
      Notification_action_callback U self key s =
        call U cb [ArgNotification self, ArgStr key, ArgObj d] s) \<and>
   map_of (actions (heap (snd (Notification_add_action self key label cb user_data s)) self)) key =
     Some (label, cb, user_data)"
  by (simp add: Notification_action_callback_def Notification_add_action_def update_conv')

theorem action_dispatch_witness:
  "map_of (actions (heap with_actions 0)) ''gone'' = None \<and>
   Notification_action_callback idle 0 ''gone'' with_actions = (Inr (), with_actions) \<and>
   map_of (actions (heap with_actions 0)) ''ok'' = Some (''OK'', UserCallable 2, None) \<and>
   Notification_action_callback idle 0 ''ok'' with_actions =
     (Inr (), with_actions\<lparr>invoked := [(UserCallable 2, [ArgNotification 0, ArgStr ''ok''])]\<rparr>) \<and>
   map_of (actions (heap with_actions 0)) ''more'' = Some (''More'', UserCallable 3, Some (PyInt 5)) \<and>
   Notification_action_callback idle 0 ''more'' with_actions =
     (Inr (), with_actions\<lparr>invoked :=
        [(UserCallable 3, [ArgNotification 0, ArgStr ''more'', ArgObj (PyInt 5)])]\<rparr>)"
  using action_dispatch [of with_actions 0 "''gone''" idle]
    action_dispatch [of with_actions 0 "''ok''" idle "''OK''" "UserCallable 2"]
    action_dispatch [of with_actions 0 "''more''" idle "''More''" "UserCallable 3" "PyInt 5"]
  by (simp add: with_actions_fields call_def idle_def Let_def)

section \<open>Setters\<close>

text \<open>
  C8. \<open>set_urgency\<close> with a level other than 0, 1 and 2 raises ValueError and
  changes nothing; with 0, 1 or 2 it returns and the hint \<open>urgency\<close> is that
  level as a \<open>dbus.Byte\<close>, the other hints staying as they were.
\<close>

theorem set_urgency_levels:
  "(level \<notin> {0, 1, 2} \<longrightarrow> Notification_set_urgency self level s = (Inl ValueError, s)) \<and>
   (level \<in> {0, 1, 2} \<longrightarrow>
      fst (Notification_set_urgency self level s) = Inr () \<and>
      hints (heap (snd (Notification_set_urgency self level s)) self) =
        AList.update ''urgency'' (PyByte (word_of_int level)) (hints (heap s self)) \<and>
      map_of (hints (heap (snd (Notification_set_urgency self level s)) self)) ''urgency'' =
        Some (PyByte (word_of_int level)))"
  by (auto simp: Notification_set_urgency_def Notification_set_hint_byte_def dbus_Byte_def
      urgency_levels_def URGENCY_LOW_def URGENCY_NORMAL_def URGENCY_CRITICAL_def update_conv')

theorem set_urgency_levels_witness:
  "(3::int) \<notin> {0, 1, 2} \<and>
   Notification_set_urgency 0 3 shown_once = (Inl ValueError, shown_once) \<and>
   (1::int) \<in> {0, 1, 2} \<and>
   fst (Notification_set_urgency 0 1 shown_once) = Inr () \<and>
   hints (heap (snd (Notification_set_urgency 0 1 shown_once)) 0) = [(''urgency'', PyByte 1)]"
  using set_urgency_levels [of 3 0 shown_once] set_urgency_levels [of 1 0 shown_once]
  by (simp add: shown_once_fields)

text \<open>
  C9. \<open>connect\<close> with an event other than \<open>closed\<close> raises ValueError and
  changes nothing; with \<open>closed\<close> it returns and the callback for the closing
  is the one given.
\<close>

theorem connect_closed_only:
  "(event \<noteq> ''closed'' \<longrightarrow> Notification_connect self event cb s = (Inl ValueError, s)) \<and>
   fst (Notification_connect self ''closed'' cb s) = Inr () \<and>
   closed_callback_attr (heap (snd (Notification_connect self ''closed'' cb s)) self) = cb"
  by (simp add: Notification_connect_def)

theorem connect_closed_only_witness:
  "''opened'' \<noteq> ''closed'' \<and>
   Notification_connect 0 ''opened'' (UserCallable 4) shown_once = (Inl ValueError, shown_once) \<and>
   closed_callback_attr (heap shown_once 0) = UserCallable 1"
  using connect_closed_only [of "''opened''" 0 "UserCallable 4" shown_once]
  by (simp add: shown_once_fields)

text \<open>
  C10. \<open>update\<close> without a message leaves the empty string as the body; without
  an icon it keeps the icon; the summary is always the one given; and whatever
  the arguments, the id, the hints, the actions, the timeout and the callback
  for the closing stay as they were.
\<close>

theorem update_frame:
  "message (heap (snd (Notification_update self su None ic s)) self) = [] \<and>
   icon (heap (snd (Notification_update self su m None s)) self) = icon (heap s self) \<and>
   summary (heap (snd (Notification_update self su m ic s)) self) = su \<and>
   id_attr (heap (snd (Notification_update self su m ic s)) self) = id_attr (heap s self) \<and>
   hints (heap (snd (Notification_update self su m ic s)) self) = hints (heap s self) \<and>
   actions (heap (snd (Notification_update self su m ic s)) self) = actions (heap s self) \<and>
   timeout (heap (snd (Notification_update self su m ic s)) self) = timeout (heap s self) \<and>
   closed_callback_attr (heap (snd (Notification_update self su m ic s)) self) =
     closed_callback_attr (heap s self)"
  by (simp add: Notification_update_def Let_def split: option.splits)

end
